theory Spec2Isabelle
  imports Main "HOL-Library.Sublist" "HOL-Library.Word"
begin

section \<open>JavaScript values\<close>

text \<open>
  The values that flow through \<^verbatim>\<open>apiTemplate.ts\<close>: request payloads
  (\<^verbatim>\<open>Record<string, any>\<close>), bodies returned by \<^verbatim>\<open>response.json()\<close> and
  \<^verbatim>\<open>response.text()\<close>, and error payloads.

  \<^item> A number is an integer \<open>n\<close> with \<open>- 2 ^ 53 \<le> n < 2 ^ 53\<close>, held as a 54-bit word
    and read by \<open>sint\<close>: each is a double, and its string form is its decimal numeral.
    Fractions, larger numbers, \<^verbatim>\<open>NaN\<close> and the infinities are not values of the type.
  \<^item> A string is its sequence of code units, each an 8-bit \<^typ>\<open>char\<close>.
  \<^item> An object is the list of its own enumerable string-keyed properties in the order
    \<^verbatim>\<open>Object.entries\<close> visits them; a well-formed object has distinct keys.
  \<^item> \<open>JBinary\<close> is a platform \<^verbatim>\<open>File\<close> or \<^verbatim>\<open>Blob\<close> with its bytes. A
    \<^verbatim>\<open>File\<close> is also an instance of \<^verbatim>\<open>Blob\<close>.
\<close>

datatype binary_kind = BrowserFile | BrowserBlob

datatype jsval =
    JUndefined
  | JNull
  | JBool bool
  | JNum "54 word"
  | JStr string
  | JArr "jsval list"
  | JObj "(string \<times> jsval) list"
  | JBinary binary_kind string

text \<open>\<^verbatim>\<open>!v\<close>, \<^verbatim>\<open>a || b\<close>: ECMAScript ToBoolean.\<close>

fun truthy :: "jsval \<Rightarrow> bool" where
  "truthy JUndefined = False"
| "truthy JNull = False"
| "truthy (JBool b) = b"
| "truthy (JNum n) = (n \<noteq> 0)"
| "truthy (JStr s) = (s \<noteq> [])"
| "truthy (JArr xs) = True"
| "truthy (JObj kvs) = True"
| "truthy (JBinary k bs) = True"

text \<open>\<^verbatim>\<open>typeof v === "object"\<close> (true of \<^verbatim>\<open>null\<close> as well).\<close>

fun typeof_object :: "jsval \<Rightarrow> bool" where
  "typeof_object JNull = True"
| "typeof_object (JArr xs) = True"
| "typeof_object (JObj kvs) = True"
| "typeof_object (JBinary k bs) = True"
| "typeof_object v = False"

fun typeof_string :: "jsval \<Rightarrow> bool" where
  "typeof_string (JStr s) = True"
| "typeof_string v = False"

text \<open>
  Property read \<^verbatim>\<open>v.name\<close> on a value that is neither \<^verbatim>\<open>null\<close> nor
  \<^verbatim>\<open>undefined\<close>, for the names the source reads (\<^verbatim>\<open>message\<close>, \<^verbatim>\<open>error\<close>,
  \<^verbatim>\<open>detail\<close>, \<^verbatim>\<open>msg\<close>, \<^verbatim>\<open>title\<close>, \<^verbatim>\<open>type\<close>, \<^verbatim>\<open>uri\<close>): only an
  object's own property answers; primitives and arrays carry none of these names. The
  source reads only \<^verbatim>\<open>uri\<close> on values that can be binary, and a \<^verbatim>\<open>File\<close> or
  \<^verbatim>\<open>Blob\<close> has no \<^verbatim>\<open>uri\<close>.
\<close>

fun getProp :: "jsval \<Rightarrow> string \<Rightarrow> jsval" where
  "getProp (JObj kvs) name = (case map_of kvs name of Some v \<Rightarrow> v | None \<Rightarrow> JUndefined)"
| "getProp v name = JUndefined"

section \<open>Errors\<close>

text \<open>
  A thrown \<^verbatim>\<open>Error\<close> object. \<open>err_status\<close> and \<open>err_data\<close> are \<open>None\<close> when the
  object has no such property.
\<close>

record js_error =
  err_name :: string
  err_message :: string
  err_status :: "int option"
  err_data :: "jsval option"

text \<open>The \<^verbatim>\<open>TypeError\<close> of a conversion to a primitive value that finds none. The
  wording of its message is the engine's.\<close>

definition TypeError_not_primitive :: js_error where
  "TypeError_not_primitive =
     \<lparr>err_name = ''TypeError'', err_message = ''Cannot convert object to primitive value'',
      err_status = None, err_data = None\<rparr>"

text \<open>\<^verbatim>\<open>throw e\<close>, where evaluating \<open>e\<close> may itself throw (\<open>Inl\<close>): the exception
  raised is that one, or else the value of \<open>e\<close>.\<close>

definition thrown :: "js_error + js_error \<Rightarrow> js_error" where
  "thrown r = (case r of Inl e \<Rightarrow> e | Inr e \<Rightarrow> e)"

subsection \<open>Platform conversions: \<^verbatim>\<open>String(v)\<close> and \<^verbatim>\<open>JSON.stringify(v)\<close>\<close>

definition digit_char :: "nat \<Rightarrow> char" where
  "digit_char d = char_of (48 + d)"

fun show_nat :: "nat \<Rightarrow> string" where
  "show_nat n = (if n < 10 then [digit_char n] else show_nat (n div 10) @ [digit_char (n mod 10)])"

declare show_nat.simps [simp del]

definition show_int :: "int \<Rightarrow> string" where
  "show_int i = (if i < 0 then CHR ''-'' # show_nat (nat (- i)) else show_nat (nat i))"

fun join :: "string \<Rightarrow> string list \<Rightarrow> string" where
  "join sep [] = []"
| "join sep [x] = x"
| "join sep (x # y # ys) = x @ sep @ join sep (y # ys)"

text \<open>Results computed from left to right: the first exception, or all the values.\<close>

fun results_in_order :: "(js_error + 'r) list \<Rightarrow> js_error + 'r list" where
  "results_in_order [] = Inr []"
| "results_in_order (Inl thrown_first # rest) = Inl thrown_first"
| "results_in_order (Inr v # rest) =
     (case results_in_order rest of Inl later \<Rightarrow> Inl later | Inr vs \<Rightarrow> Inr (v # vs))"

text \<open>
  ECMAScript ToString, \<open>Inl\<close> when it throws. A primitive value has its string form. An
  array joins the string forms of its elements with commas, \<^verbatim>\<open>null\<close> and
  \<^verbatim>\<open>undefined\<close> elements giving the empty string. A plain object is converted by the
  first of its \<^verbatim>\<open>toString\<close> and \<^verbatim>\<open>valueOf\<close> that is callable and returns a
  primitive value: without an own property \<^verbatim>\<open>toString\<close> that is
  \<^verbatim>\<open>Object.prototype.toString\<close>, which answers \<^verbatim>\<open>[object Object]\<close>; with one,
  which is no function since no value of the model is, neither it nor \<^verbatim>\<open>valueOf\<close>
  (an own property, or \<^verbatim>\<open>Object.prototype.valueOf\<close>, which returns the object) gives
  a primitive value, and the conversion throws \<^verbatim>\<open>TypeError\<close>.
\<close>

fun js_String :: "jsval \<Rightarrow> js_error + string" where
  "js_String JUndefined = Inr ''undefined''"
| "js_String JNull = Inr ''null''"
| "js_String (JBool b) = Inr (if b then ''true'' else ''false'')"
| "js_String (JNum n) = Inr (show_int (sint n))"
| "js_String (JStr s) = Inr s"
| "js_String (JArr xs) =
     (case results_in_order
             (map (\<lambda>x. if x = JNull \<or> x = JUndefined then Inr [] else js_String x) xs) of
        Inl e \<Rightarrow> Inl e
      | Inr ss \<Rightarrow> Inr (join '','' ss))"
| "js_String (JObj kvs) =
     (if map_of kvs ''toString'' \<noteq> None then Inl TypeError_not_primitive
      else Inr ''[object Object]'')"
| "js_String (JBinary BrowserFile bs) = Inr ''[object File]''"
| "js_String (JBinary BrowserBlob bs) = Inr ''[object Blob]''"

definition hex_digit :: "nat \<Rightarrow> char" where
  "hex_digit d = (if d < 10 then char_of (48 + d) else char_of (87 + d))"

text \<open>One code unit inside a JSON string literal (ECMAScript QuoteJSONString).\<close>

definition quote_char :: "char \<Rightarrow> string" where
  "quote_char c =
     (let n = (of_char c :: nat) in
      if n = 34 then [CHR 0x5C, CHR 0x22]
      else if n = 92 then [CHR 0x5C, CHR 0x5C]
      else if n = 8 then [CHR 0x5C, CHR ''b'']
      else if n = 12 then [CHR 0x5C, CHR ''f'']
      else if n = 10 then [CHR 0x5C, CHR ''n'']
      else if n = 13 then [CHR 0x5C, CHR ''r'']
      else if n = 9 then [CHR 0x5C, CHR ''t'']
      else if n < 32 then [CHR 0x5C, CHR ''u'', CHR ''0'', CHR ''0'', hex_digit (n div 16), hex_digit (n mod 16)]
      else [c])"

definition quote :: "string \<Rightarrow> string" where
  "quote s = CHR 0x22 # concat (map quote_char s) @ [CHR 0x22]"

text \<open>
  \<^verbatim>\<open>JSON.stringify(v)\<close>; \<open>None\<close> is the result \<^verbatim>\<open>undefined\<close>. An
  \<^verbatim>\<open>undefined\<close> array element is written \<^verbatim>\<open>null\<close>, an \<^verbatim>\<open>undefined\<close> property
  is left out, and a \<^verbatim>\<open>File\<close> or \<^verbatim>\<open>Blob\<close> has no own enumerable property. A
  property \<^verbatim>\<open>toJSON\<close> is called only when it is a function, which no value of the
  model is.
\<close>

fun JSON_stringify :: "jsval \<Rightarrow> string option" where
  "JSON_stringify JUndefined = None"
| "JSON_stringify JNull = Some ''null''"
| "JSON_stringify (JBool b) = Some (if b then ''true'' else ''false'')"
| "JSON_stringify (JNum n) = Some (show_int (sint n))"
| "JSON_stringify (JStr s) = Some (quote s)"
| "JSON_stringify (JArr xs) =
     Some (''['' @ join '','' (map (\<lambda>x. case JSON_stringify x of None \<Rightarrow> ''null'' | Some s \<Rightarrow> s) xs) @ '']'')"
| "JSON_stringify (JObj kvs) =
     Some (''{'' @ join '',''
        (concat (map (\<lambda>kv. case JSON_stringify (snd kv) of None \<Rightarrow> []
                             | Some s \<Rightarrow> [quote (fst kv) @ '':'' @ s]) kvs)) @ ''}'')"
| "JSON_stringify (JBinary k bs) = Some ''{}''"

section \<open>Helpers of the source\<close>

text \<open>
  \<^verbatim>\<open>new Error(message)\<close>: \<open>Inr\<close> the object constructed, \<open>Inl\<close> the exception when
  the constructor throws. The constructor stores ToString of its argument, which can
  throw; for \<^verbatim>\<open>undefined\<close> it stores nothing and the message read is the empty one of
  \<^verbatim>\<open>Error.prototype\<close>.
\<close>

definition new_Error :: "jsval \<Rightarrow> js_error + js_error" where
  "new_Error message =
     (if message = JUndefined then
        Inr \<lparr>err_name = ''Error'', err_message = [], err_status = None, err_data = None\<rparr>
      else
        (case js_String message of
           Inl e \<Rightarrow> Inl e
         | Inr msg \<Rightarrow>
             Inr \<lparr>err_name = ''Error'', err_message = msg, err_status = None, err_data = None\<rparr>))"

fun getErrorMessage :: "jsval \<Rightarrow> string \<Rightarrow> jsval" where
  "getErrorMessage errorData fallbackMessage =
     (if \<not> truthy errorData then JStr fallbackMessage
      else if typeof_string errorData then errorData
      else if typeof_object errorData then
        (if truthy (getProp errorData ''message'') then getProp errorData ''message''
         else if truthy (getProp errorData ''error'') then getProp errorData ''error''
         else if truthy (getProp errorData ''detail'') then getProp errorData ''detail''
         else if truthy (getProp errorData ''msg'') then getProp errorData ''msg''
         else if truthy (getProp errorData ''title'') then getProp errorData ''title''
         else JStr fallbackMessage)
      else JStr fallbackMessage)"

text \<open>\<^verbatim>\<open>makeApiError\<close>: \<open>Inr\<close> the error it returns, \<open>Inl\<close> the exception of
  \<^verbatim>\<open>new Error(message)\<close> when that throws.\<close>

definition makeApiError :: "jsval \<Rightarrow> int \<Rightarrow> jsval \<Rightarrow> js_error + js_error" where
  "makeApiError message status data =
     (case new_Error message of
        Inl e \<Rightarrow> Inl e
      | Inr err \<Rightarrow>
          Inr (err\<lparr>err_name := ''ApiError'', err_status := Some status, err_data := Some data\<rparr>))"

section \<open>Types of the request helper\<close>

datatype http_method = GET | POST | PUT | PATCH | DELETE

datatype ResponseType = Auto | Json | Blob | Text | ArrayBuffer

text \<open>
  \<^verbatim>\<open>ApiTemplateArguments\<close>. An optional field is \<open>None\<close> when it is absent; for
  \<open>token\<close> and \<open>responseType\<close>, \<open>None\<close> is \<^verbatim>\<open>null\<close> as well, which the source
  never tells from \<^verbatim>\<open>undefined\<close>.
\<close>

record ApiTemplateArguments =
  baseUrl :: string
  endpoint :: string
  method' :: "http_method option"
  payload :: "(string \<times> jsval) list option"
  isAuthenticationRequired :: "bool option"
  token :: "string option"
  isFormData :: "bool option"
  responseType :: "ResponseType option"

text \<open>A \<^verbatim>\<open>FormData\<close> is the list of its entries, in the order they were appended.\<close>

type_synonym FormData = "(string \<times> jsval) list"

datatype CrossBody = BodyUndefined | BodyString string | BodyForm FormData

record PreparedRequest =
  headers :: "string \<rightharpoonup> string"
  body :: CrossBody

section \<open>A) Prepare request\<close>

text \<open>\<^verbatim>\<open>forEach\<close> with a callback that updates a state and may throw: the loop
  stops at the first exception.\<close>

fun forEach :: "('s \<Rightarrow> 'a \<Rightarrow> js_error + 's) \<Rightarrow> 's \<Rightarrow> 'a list \<Rightarrow> js_error + 's" where
  "forEach callback st [] = Inr st"
| "forEach callback st (x # xs) =
     (case callback st x of Inl e \<Rightarrow> Inl e | Inr st' \<Rightarrow> forEach callback st' xs)"

text \<open>\<^verbatim>\<open>appendValue\<close>, with the form it appends to passed in and returned; \<open>Inl\<close>
  when \<^verbatim>\<open>String(v)\<close> throws.\<close>

definition appendValue :: "string \<Rightarrow> FormData \<Rightarrow> jsval \<Rightarrow> js_error + FormData" where
  "appendValue key formData v =
     (if v = JUndefined \<or> v = JNull then Inr formData
      else
        let isBrowserFile = (case v of JBinary BrowserFile bs \<Rightarrow> True | _ \<Rightarrow> False);
            isBrowserBlob = (case v of JBinary k bs \<Rightarrow> True | _ \<Rightarrow> False);
            isReactNativeFile = (truthy v \<and> typeof_object v \<and> typeof_string (getProp v ''uri''))
        in
          if isBrowserFile \<or> isBrowserBlob \<or> isReactNativeFile then Inr (formData @ [(key, v)])
          else if typeof_object v then
            Inr (formData @
                 [(key, JStr (case JSON_stringify v of Some s \<Rightarrow> s | None \<Rightarrow> ''undefined''))])
          else
            (case js_String v of
               Inl e \<Rightarrow> Inl e
             | Inr s \<Rightarrow> Inr (formData @ [(key, JStr s)])))"

text \<open>The callback of \<^verbatim>\<open>Object.entries(payload ?? {}).forEach\<close>.\<close>

definition appendEntry :: "FormData \<Rightarrow> string \<times> jsval \<Rightarrow> js_error + FormData" where
  "appendEntry formData entry =
     (let key = fst entry; value = snd entry in
      if value = JUndefined \<or> value = JNull then Inr formData
      else (case value of
              JArr vs \<Rightarrow> forEach (appendValue key) formData vs
            | _ \<Rightarrow> appendValue key formData value))"

definition prepareRequest :: "ApiTemplateArguments \<Rightarrow> js_error + PreparedRequest" where
  "prepareRequest args =
     (let headers0 = (Map.empty :: string \<rightharpoonup> string);
          headers1 = (if isFormData args \<noteq> Some True
                      then headers0(''Content-Type'' \<mapsto> ''application/json'') else headers0);
          authorized =
            (if isAuthenticationRequired args = Some True then
               (case token args of
                  None \<Rightarrow>
                    Inl (thrown (new_Error (JStr ''Token is required but not available'')))
                | Some t \<Rightarrow>
                    if t = [] then
                      Inl (thrown (new_Error (JStr ''Token is required but not available'')))
                    else Inr (headers1(''Authorization'' \<mapsto> ''Bearer '' @ t)))
             else Inr headers1)
      in case authorized of
           Inl e \<Rightarrow> Inl e
         | Inr headers2 \<Rightarrow>
             (case
                (if method' args \<noteq> Some GET then
                   (if isFormData args = Some True then
                      (case forEach appendEntry []
                              (case payload args of None \<Rightarrow> [] | Some kvs \<Rightarrow> kvs) of
                         Inl e \<Rightarrow> Inl e
                       | Inr formData \<Rightarrow> Inr (BodyForm formData))
                    else
                      Inr (case JSON_stringify
                                  (case payload args of None \<Rightarrow> JUndefined | Some kvs \<Rightarrow> JObj kvs) of
                             None \<Rightarrow> BodyUndefined
                           | Some s \<Rightarrow> BodyString s))
                 else Inr BodyUndefined)
              of
                Inl e \<Rightarrow> Inl e
              | Inr b \<Rightarrow> Inr \<lparr>headers = headers2, body = b\<rparr>))"

section \<open>B) Auto response type detection\<close>

definition CONTENT_TYPE_PATTERNS_json :: "string list" where
  "CONTENT_TYPE_PATTERNS_json = [''application/json'', ''+json'']"

definition CONTENT_TYPE_PATTERNS_blob :: "string list" where
  "CONTENT_TYPE_PATTERNS_blob =
     [''application/pdf'', ''application/octet-stream'', ''application/zip'',
      ''application/vnd'', ''image/'']"

definition CONTENT_TYPE_PATTERNS_text :: "string list" where
  "CONTENT_TYPE_PATTERNS_text = [''text/'', ''application/xml'', ''text/xml'']"

text \<open>
  \<^verbatim>\<open>String.prototype.toLowerCase\<close> on 8-bit code units (a header value is a byte
  string): the letters A to Z, and the capital letters of Latin-1 (0xC0 to 0xDE but the
  multiplication sign 0xD7), move up by 32.
\<close>

definition toLowerCase_char :: "char \<Rightarrow> char" where
  "toLowerCase_char c =
     (let n = (of_char c :: nat) in
      if (65 \<le> n \<and> n \<le> 90) \<or> (192 \<le> n \<and> n \<le> 222 \<and> n \<noteq> 215) then char_of (n + 32) else c)"

definition toLowerCase :: "string \<Rightarrow> string" where
  "toLowerCase s = map toLowerCase_char s"

fun startsWith :: "string \<Rightarrow> string \<Rightarrow> bool" where
  "startsWith s [] = True"
| "startsWith [] (p # ps) = False"
| "startsWith (c # cs) (p # ps) = (c = p \<and> startsWith cs ps)"

fun includes' :: "string \<Rightarrow> string \<Rightarrow> bool" where
  "includes' [] p = (p = [])"
| "includes' (c # cs) p = (startsWith (c # cs) p \<or> includes' cs p)"

definition endsWith :: "string \<Rightarrow> string \<Rightarrow> bool" where
  "endsWith s p = startsWith (rev s) (rev p)"

text \<open>A \<^verbatim>\<open>Response\<close> of the transport: what the source reads of it. The status is
  an unsigned 16-bit integer, as the Fetch standard has it. Each body read is its outcome
  once awaited (\<open>Inl\<close> when the read rejects); \<open>blob_read\<close> and \<open>arrayBuffer_read\<close> are
  \<open>None\<close> when the response has no such function.\<close>

record Response =
  ok :: bool
  status :: "16 word"
  headers_get :: "string \<Rightarrow> string option"
  json_read :: "js_error + jsval"
  text_read :: "js_error + string"
  blob_read :: "(js_error + string) option"
  arrayBuffer_read :: "(js_error + string) option"

fun matchesAny :: "string \<Rightarrow> string list \<Rightarrow> bool" where
  "matchesAny contentType [] = False"
| "matchesAny contentType (pattern # patterns) =
     (let isMatch = (if endsWith pattern ''/'' then startsWith contentType pattern
                     else includes' contentType pattern)
      in if isMatch then True else matchesAny contentType patterns)"

definition detectResponseType :: "Response \<Rightarrow> ResponseType" where
  "detectResponseType response =
     (let contentType =
            toLowerCase (case headers_get response ''content-type'' of None \<Rightarrow> [] | Some h \<Rightarrow> h)
      in if matchesAny contentType CONTENT_TYPE_PATTERNS_json then Json
         else if matchesAny contentType CONTENT_TYPE_PATTERNS_blob then Blob
         else if matchesAny contentType CONTENT_TYPE_PATTERNS_text then Text
         else Text)"

section \<open>C) Parse success response\<close>

text \<open>What \<^verbatim>\<open>parseResponse\<close> resolves to: a parsed JSON value or a text (a string
  value), a blob with the \<^verbatim>\<open>filename\<close> set on it, or a byte buffer.\<close>

datatype parsed = Value jsval | BlobValue string "string option" | Buffer string

text \<open>\<^verbatim>\<open>throwIfOperationFailed\<close>: \<open>Some\<close> the error it throws, \<open>None\<close> when it
  returns.\<close>

definition throwIfOperationFailed :: "jsval \<Rightarrow> js_error option" where
  "throwIfOperationFailed data =
     (if (if data = JNull \<or> data = JUndefined then JUndefined else getProp data ''type'')
         = JStr ''FALSE''
      then Some (thrown (makeApiError (getErrorMessage data ''Operation failed'') 400 data))
      else None)"

text \<open>
  The regular expression \<^verbatim>\<open>/filename="([^"]+)"/i\<close> tried at the start of \<open>s\<close>: the
  ten characters of \<^verbatim>\<open>filename="\<close> in any case, the longest run of characters other
  than the double quote, which must not be empty, and a double quote. The result is the
  run (capture group 1).
\<close>

definition filename_match_here :: "string \<Rightarrow> string option" where
  "filename_match_here s =
     (if toLowerCase (take 10 s) = ''filename='' @ [CHR 0x22] then
        (let run = takeWhile (\<lambda>c. c \<noteq> CHR 0x22) (drop 10 s);
             rest = dropWhile (\<lambda>c. c \<noteq> CHR 0x22) (drop 10 s)
         in if run \<noteq> [] \<and> rest \<noteq> [] then Some run else None)
      else None)"

text \<open>\<^verbatim>\<open>exec\<close>: the leftmost position where the expression matches.\<close>

fun filename_exec :: "string \<Rightarrow> string option" where
  "filename_exec [] = None"
| "filename_exec (c # cs) =
     (case filename_match_here (c # cs) of Some m \<Rightarrow> Some m | None \<Rightarrow> filename_exec cs)"

definition getFilenameFromResponse :: "Response \<Rightarrow> string option" where
  "getFilenameFromResponse response =
     (case headers_get response ''content-disposition'' of
        None \<Rightarrow> None
      | Some cd \<Rightarrow> if cd = [] then None else filename_exec cd)"

definition read_text :: "Response \<Rightarrow> js_error + parsed" where
  "read_text response =
     (case text_read response of Inl e \<Rightarrow> Inl e | Inr s \<Rightarrow> Inr (Value (JStr s)))"

definition read_arrayBuffer :: "js_error + string \<Rightarrow> js_error + parsed" where
  "read_arrayBuffer r = (case r of Inl e \<Rightarrow> Inl e | Inr bs \<Rightarrow> Inr (Buffer bs))"

definition parseResponse :: "Response \<Rightarrow> ResponseType \<Rightarrow> js_error + parsed" where
  "parseResponse response finalType =
     (case finalType of
        Json \<Rightarrow>
          (case json_read response of
             Inl e \<Rightarrow> Inl e
           | Inr data \<Rightarrow>
               (case throwIfOperationFailed data of
                  Some e \<Rightarrow> Inl e
                | None \<Rightarrow> Inr (Value data)))
      | Blob \<Rightarrow>
          (let fileName = getFilenameFromResponse response in
           case blob_read response of
             Some r \<Rightarrow> (case r of Inl e \<Rightarrow> Inl e | Inr blob \<Rightarrow> Inr (BlobValue blob fileName))
           | None \<Rightarrow>
               (case arrayBuffer_read response of
                  Some r \<Rightarrow> read_arrayBuffer r
                | None \<Rightarrow> read_text response))
      | ArrayBuffer \<Rightarrow>
          (case arrayBuffer_read response of
             Some r \<Rightarrow> read_arrayBuffer r
           | None \<Rightarrow> read_text response)
      | Text \<Rightarrow> read_text response
      | Auto \<Rightarrow> read_text response)"

section \<open>D) Main template\<close>

text \<open>The object \<^verbatim>\<open>normalizedArgs\<close> that \<^verbatim>\<open>apiTemplate\<close> hands to
  \<^verbatim>\<open>prepareRequest\<close>.\<close>

definition normalizedArgs :: "ApiTemplateArguments \<Rightarrow> ApiTemplateArguments" where
  "normalizedArgs args =
     args\<lparr>method' := Some (case method' args of None \<Rightarrow> GET | Some m \<Rightarrow> m),
          payload := Some (case payload args of None \<Rightarrow> [] | Some kvs \<Rightarrow> kvs),
          isAuthenticationRequired :=
            Some (case isAuthenticationRequired args of None \<Rightarrow> False | Some b \<Rightarrow> b),
          token := token args,
          isFormData := Some (case isFormData args of None \<Rightarrow> False | Some b \<Rightarrow> b)\<rparr>"

text \<open>The branch \<^verbatim>\<open>if (!response.ok)\<close>: the exception it ends with.\<close>

definition httpError :: "Response \<Rightarrow> js_error" where
  "httpError response =
     (let ct = toLowerCase (case headers_get response ''content-type'' of None \<Rightarrow> [] | Some h \<Rightarrow> h);
          errorData =
            (if includes' ct ''application/json'' \<or> includes' ct ''+json'' then
               (case json_read response of Inl e \<Rightarrow> JNull | Inr d \<Rightarrow> d)
             else
               (case text_read response of Inl e \<Rightarrow> JNull | Inr s \<Rightarrow> JStr s));
          message = getErrorMessage errorData
                      (''API error ('' @ show_int (uint (status response)) @ '')'')
      in thrown (makeApiError message (uint (status response)) errorData))"

text \<open>The choice of \<^verbatim>\<open>finalType\<close>.\<close>

definition chooseFinalType :: "ResponseType option \<Rightarrow> Response \<Rightarrow> ResponseType" where
  "chooseFinalType rt response =
     (case rt of
        None \<Rightarrow> detectResponseType response
      | Some t \<Rightarrow> if t \<noteq> Auto then t else detectResponseType response)"

text \<open>One call of the transport: the arguments of \<^verbatim>\<open>fetch\<close>.\<close>

record fetch_call =
  call_url :: string
  call_method :: http_method
  call_headers :: "string \<rightharpoonup> string"
  call_body :: CrossBody

text \<open>
  \<^verbatim>\<open>apiTemplate\<close>, with the transport \<open>fetch\<close> as a parameter (\<open>Inl\<close> when the
  call rejects). The result is the outcome of the promise, \<open>Inl\<close> a rejection, and the
  list of the calls made of the transport.
\<close>

definition apiTemplate ::
  "(fetch_call \<Rightarrow> js_error + Response) \<Rightarrow> ApiTemplateArguments
     \<Rightarrow> (js_error + parsed) \<times> fetch_call list" where
  "apiTemplate fetch args =
     (let method = (case method' args of None \<Rightarrow> GET | Some m \<Rightarrow> m) in
      if baseUrl args = [] then (Inl (thrown (new_Error (JStr ''Base URL not found''))), [])
      else
        let fullUrl = baseUrl args @ endpoint args in
        case prepareRequest (normalizedArgs args) of
          Inl e \<Rightarrow> (Inl e, [])
        | Inr prepared \<Rightarrow>
            (let call = \<lparr>call_url = fullUrl, call_method = method,
                          call_headers = headers prepared, call_body = body prepared\<rparr>
             in case fetch call of
                  Inl e \<Rightarrow> (Inl e, [call])
                | Inr response \<Rightarrow>
                    if \<not> ok response then (Inl (httpError response), [call])
                    else (parseResponse response (chooseFinalType (responseType args) response),
                          [call])))"

section \<open>The specification's formulations\<close>

text \<open>
  Definitions that follow the words of the specification, not the source; the theorems
  below compare them with the functions above.
\<close>

text \<open>The classifier: an ordered rule table, the first category with a matching pattern
  wins, \<open>Text\<close> when none matches. A pattern ending in a slash matches as a prefix, any
  other as a substring.\<close>

definition pattern_matches_spec :: "string \<Rightarrow> string \<Rightarrow> bool" where
  "pattern_matches_spec contentType pattern =
     (if suffix ''/'' pattern then prefix pattern contentType else sublist pattern contentType)"

definition rule_table_spec :: "(ResponseType \<times> string list) list" where
  "rule_table_spec =
     [(Json, [''application/json'', ''+json'']),
      (Blob, [''application/pdf'', ''application/octet-stream'', ''application/zip'',
              ''application/vnd'', ''image/'']),
      (Text, [''text/'', ''application/xml'', ''text/xml''])]"

definition classify_spec :: "string option \<Rightarrow> ResponseType" where
  "classify_spec header =
     (let contentType = toLowerCase (case header of None \<Rightarrow> [] | Some h \<Rightarrow> h) in
      case List.find (\<lambda>rule. list_ex (pattern_matches_spec contentType) (snd rule)) rule_table_spec of
        Some rule \<Rightarrow> fst rule
      | None \<Rightarrow> Text)"

text \<open>Error-message extraction: the fallback for a falsy payload, a string as it is,
  for an object the first non-empty (truthy) value among the fields probed in the order
  of \<open>probe_fields_spec\<close> and the fallback when there is none, the fallback for any
  other shape.\<close>

definition probe_fields_spec :: "string list" where
  "probe_fields_spec = [''message'', ''error'', ''detail'', ''msg'', ''title'']"

definition extractErrorMessage_spec :: "jsval \<Rightarrow> string \<Rightarrow> jsval" where
  "extractErrorMessage_spec errorData fallback =
     (if \<not> truthy errorData then JStr fallback
      else case errorData of
        JStr s \<Rightarrow> errorData
      | _ \<Rightarrow>
          if typeof_object errorData then
            (case List.find truthy (map (getProp errorData) probe_fields_spec) of
               Some v \<Rightarrow> v
             | None \<Rightarrow> JStr fallback)
          else JStr fallback)"

text \<open>Multipart encoding. A value is file-like when it is a platform \<^verbatim>\<open>File\<close> or
  \<^verbatim>\<open>Blob\<close>, or an object with a string \<^verbatim>\<open>uri\<close> field. The per-value rule gives
  the entries one value contributes under a key; the form is the concatenation, in the
  order of the payload's keys, of what each entry contributes, a sequence contributing
  element by element.\<close>

definition is_file_like_spec :: "jsval \<Rightarrow> bool" where
  "is_file_like_spec v =
     (case v of
        JBinary k bs \<Rightarrow> True
      | JObj kvs \<Rightarrow> (case map_of kvs ''uri'' of Some (JStr u) \<Rightarrow> True | _ \<Rightarrow> False)
      | _ \<Rightarrow> False)"

text \<open>The string form of a scalar: a boolean, a number or a string.\<close>

definition scalar_string_spec :: "jsval \<Rightarrow> string" where
  "scalar_string_spec v =
     (case v of
        JBool b \<Rightarrow> (if b then ''true'' else ''false'')
      | JNum n \<Rightarrow> show_int (sint n)
      | JStr s \<Rightarrow> s
      | _ \<Rightarrow> [])"

definition entries_of_value_spec :: "string \<Rightarrow> jsval \<Rightarrow> FormData" where
  "entries_of_value_spec key v =
     (case v of
        JUndefined \<Rightarrow> []
      | JNull \<Rightarrow> []
      | _ \<Rightarrow>
          if is_file_like_spec v then [(key, v)]
          else if typeof_object v then
            [(key, JStr (case JSON_stringify v of Some s \<Rightarrow> s | None \<Rightarrow> ''undefined''))]
          else [(key, JStr (scalar_string_spec v))])"

definition multipart_spec :: "(string \<times> jsval) list \<Rightarrow> FormData" where
  "multipart_spec entries =
     concat (map (\<lambda>entry.
        case snd entry of
          JArr vs \<Rightarrow> concat (map (entries_of_value_spec (fst entry)) vs)
        | _ \<Rightarrow> entries_of_value_spec (fst entry) (snd entry)) entries)"

text \<open>The error payload of a response with a non-success status: the JSON-parsed body
  when the content type (lower-cased) contains \<^verbatim>\<open>application/json\<close> or
  \<^verbatim>\<open>+json\<close>, the text body otherwise, \<^verbatim>\<open>null\<close> when the read throws.\<close>

definition errorPayload_spec :: "Response \<Rightarrow> jsval" where
  "errorPayload_spec response =
     (let ct = toLowerCase (case headers_get response ''content-type'' of None \<Rightarrow> [] | Some h \<Rightarrow> h) in
      if sublist ''application/json'' ct \<or> sublist ''+json'' ct then
        (case json_read response of Inr d \<Rightarrow> d | Inl e \<Rightarrow> JNull)
      else
        (case text_read response of Inr s \<Rightarrow> JStr s | Inl e \<Rightarrow> JNull))"

section \<open>Auxiliary facts\<close>

lemma startsWith_prefix: "startsWith s p = prefix p s"
  by (induction s p rule: startsWith.induct) auto

lemma includes_sublist: "includes' s p = sublist p s"
proof (induction s)
  case Nil
  show ?case by simp
next
  case (Cons c cs)
  show ?case
  proof (cases p)
    case Nil
    then show ?thesis by simp
  next
    case (Cons q qs)
    with Cons.IH show ?thesis
      by (simp add: startsWith_prefix sublist_Cons_right del: startsWith.simps)
  qed
qed

lemma endsWith_suffix: "endsWith s p = suffix p s"
  by (simp add: endsWith_def startsWith_prefix suffix_to_prefix)

lemma matchesAny_list_ex: "matchesAny ct ps = list_ex (pattern_matches_spec ct) ps"
  by (induction ps)
     (simp_all add: pattern_matches_spec_def startsWith_prefix includes_sublist endsWith_suffix)

lemma detectResponseType_classify_spec:
  "detectResponseType r = classify_spec (headers_get r ''content-type'')"
  by (simp add: detectResponseType_def classify_spec_def rule_table_spec_def matchesAny_list_ex
      CONTENT_TYPE_PATTERNS_json_def CONTENT_TYPE_PATTERNS_blob_def
      CONTENT_TYPE_PATTERNS_text_def Let_def)

lemma detectResponseType_cases:
  "detectResponseType r = Json \<or> detectResponseType r = Blob \<or> detectResponseType r = Text"
  by (simp add: detectResponseType_def Let_def)

lemma classify_ld_json:
  "toLowerCase ''application/ld+json'' = ''application/ld+json'' \<and>
   matchesAny ''application/ld+json'' CONTENT_TYPE_PATTERNS_json"
  by code_simp

lemma classify_image_png:
  "toLowerCase ''image/png'' = ''image/png'' \<and>
   \<not> matchesAny ''image/png'' CONTENT_TYPE_PATTERNS_json \<and>
   matchesAny ''image/png'' CONTENT_TYPE_PATTERNS_blob"
  by code_simp

lemma classify_text_plain:
  "toLowerCase ''text/plain; charset=utf-8'' = ''text/plain; charset=utf-8'' \<and>
   \<not> matchesAny ''text/plain; charset=utf-8'' CONTENT_TYPE_PATTERNS_json \<and>
   \<not> matchesAny ''text/plain; charset=utf-8'' CONTENT_TYPE_PATTERNS_blob \<and>
   matchesAny ''text/plain; charset=utf-8'' CONTENT_TYPE_PATTERNS_text"
  by code_simp

lemma classify_unknown_x:
  "toLowerCase ''application/unknown-x'' = ''application/unknown-x'' \<and>
   \<not> matchesAny ''application/unknown-x'' CONTENT_TYPE_PATTERNS_json \<and>
   \<not> matchesAny ''application/unknown-x'' CONTENT_TYPE_PATTERNS_blob \<and>
   \<not> matchesAny ''application/unknown-x'' CONTENT_TYPE_PATTERNS_text"
  by code_simp

lemma detect_json_header:
  "toLowerCase ''application/json'' = ''application/json'' \<and>
   matchesAny ''application/json'' CONTENT_TYPE_PATTERNS_json"
  by code_simp

lemma thrown_new_Error_string:
  "thrown (new_Error (JStr s)) =
     \<lparr>err_name = ''Error'', err_message = s, err_status = None, err_data = None\<rparr>"
  by (simp add: thrown_def new_Error_def)

lemma thrown_makeApiError_string:
  "thrown (makeApiError (JStr s) st d) =
     \<lparr>err_name = ''ApiError'', err_message = s, err_status = Some st, err_data = Some d\<rparr>"
  by (simp add: thrown_def makeApiError_def new_Error_def)

lemma appendValue_spec: "appendValue key fd v = Inr (fd @ entries_of_value_spec key v)"
  by (cases v)
     (auto simp: appendValue_def entries_of_value_spec_def is_file_like_spec_def
        scalar_string_spec_def Let_def
        split: option.splits jsval.splits binary_kind.splits)

lemma forEach_appendValue:
  "forEach (appendValue key) fd vs = Inr (fd @ concat (map (entries_of_value_spec key) vs))"
  by (induction vs arbitrary: fd) (simp_all add: appendValue_spec)

lemma appendEntry_spec: "appendEntry fd entry = Inr (fd @ multipart_spec [entry])"
  by (cases "snd entry")
     (simp_all add: appendEntry_def multipart_spec_def Let_def forEach_appendValue
        appendValue_spec entries_of_value_spec_def)

lemma multipart_spec_Cons: "multipart_spec (e # es) = multipart_spec [e] @ multipart_spec es"
  by (simp add: multipart_spec_def)

lemma forEach_appendEntry: "forEach appendEntry fd entries = Inr (fd @ multipart_spec entries)"
proof (induction entries arbitrary: fd)
  case Nil
  show ?case by (simp add: multipart_spec_def)
next
  case (Cons e es)
  have "forEach appendEntry fd (e # es) = forEach appendEntry (fd @ multipart_spec [e]) es"
    by (simp add: appendEntry_spec [of fd e])
  also have "\<dots> = Inr ((fd @ multipart_spec [e]) @ multipart_spec es)"
    by (rule Cons.IH)
  also have "\<dots> = Inr (fd @ multipart_spec (e # es))"
    by (simp add: multipart_spec_Cons [of e es])
  finally show ?case .
qed

lemma multipart_spec_example:
  "multipart_spec [(''tags'', JArr [JStr ''a'', JStr ''b'']), (''note'', JNull),
                   (''meta'', JObj [(''x'', JNum 1)])]
   = [(''tags'', JStr ''a''), (''tags'', JStr ''b''), (''meta'', JStr ''{\"x\":1}'')]"
  by code_simp

lemma prepareRequest_token_missing:
  assumes "isAuthenticationRequired args = Some True" "token args = None \<or> token args = Some []"
  shows "prepareRequest args =
     Inl \<lparr>err_name = ''Error'', err_message = ''Token is required but not available'',
          err_status = None, err_data = None\<rparr>"
  using assms by (auto simp: prepareRequest_def Let_def thrown_new_Error_string)

lemma prepareRequest_fails_only_on_token:
  assumes "prepareRequest args = Inl e"
  shows "isAuthenticationRequired args = Some True \<and> (token args = None \<or> token args = Some [])"
  using assms
  by (auto simp: prepareRequest_def Let_def forEach_appendEntry
        split: if_splits option.splits sum.splits)

lemma normalizedArgs_simps:
  "isAuthenticationRequired (normalizedArgs args) = Some (isAuthenticationRequired args = Some True)"
  "token (normalizedArgs args) = token args"
  "isFormData (normalizedArgs args) = Some (isFormData args = Some True)"
  "method' (normalizedArgs args) = Some (case method' args of None \<Rightarrow> GET | Some m \<Rightarrow> m)"
  "payload (normalizedArgs args) = Some (case payload args of None \<Rightarrow> [] | Some kvs \<Rightarrow> kvs)"
  by (auto simp: normalizedArgs_def split: option.splits)

lemma apiTemplate_call:
  assumes "baseUrl args \<noteq> []" "prepareRequest (normalizedArgs args) = Inr p"
  shows "snd (apiTemplate fetch args) =
     [\<lparr>call_url = baseUrl args @ endpoint args,
       call_method = (case method' args of None \<Rightarrow> GET | Some m \<Rightarrow> m),
       call_headers = headers p, call_body = body p\<rparr>]"
  using assms by (simp add: apiTemplate_def Let_def split: sum.splits)

lemma apiTemplate_response:
  assumes "baseUrl args \<noteq> []" "prepareRequest (normalizedArgs args) = Inr p"
    and "fetch \<lparr>call_url = baseUrl args @ endpoint args,
       call_method = (case method' args of None \<Rightarrow> GET | Some m \<Rightarrow> m),
       call_headers = headers p, call_body = body p\<rparr> = Inr r"
  shows "fst (apiTemplate fetch args) =
     (if \<not> ok r then Inl (httpError r)
      else parseResponse r (chooseFinalType (responseType args) r))"
  using assms by (simp add: apiTemplate_def Let_def)

lemma httpError_payload:
  "httpError r =
     thrown (makeApiError
       (getErrorMessage (errorPayload_spec r) (''API error ('' @ show_int (uint (status r)) @ '')''))
       (uint (status r)) (errorPayload_spec r))"
  by (simp add: httpError_def errorPayload_spec_def Let_def includes_sublist
        del: getErrorMessage.simps)

lemma throwIfOperationFailed_sentinel:
  "throwIfOperationFailed data =
     (if (\<exists>kvs. data = JObj kvs \<and> map_of kvs ''type'' = Some (JStr ''FALSE''))
      then Some (thrown (makeApiError (getErrorMessage data ''Operation failed'') 400 data))
      else None)"
  by (cases data)
     (auto simp: throwIfOperationFailed_def simp del: getErrorMessage.simps split: option.splits)

lemma parseResponse_Json:
  assumes "json_read r = Inr data"
  shows "parseResponse r Json =
     (if (\<exists>kvs. data = JObj kvs \<and> map_of kvs ''type'' = Some (JStr ''FALSE''))
      then Inl (thrown (makeApiError (getErrorMessage data ''Operation failed'') 400 data))
      else Inr (Value data))"
  using assms
  by (simp add: parseResponse_def throwIfOperationFailed_sentinel del: getErrorMessage.simps)

section \<open>The classifier\<close>

text \<open>
  Claim C3. \<open>detectResponseType\<close> is a total function of the response's
  \<^verbatim>\<open>content-type\<close> header: it is the specification's classifier \<open>classify_spec\<close>, which
  takes a missing header as the empty string, lower-cases it, walks the rule table in
  the order json, blob, text, matches a pattern ending in a slash as a prefix and any other
  as a substring, answers the first category with a matching pattern and \<open>Text\<close> when
  there is none. Two headers that differ only in case classify alike. In particular
  \<^verbatim>\<open>application/ld+json\<close> is json, \<^verbatim>\<open>image/png\<close> is blob,
  \<^verbatim>\<open>text/plain; charset=utf-8\<close> is text and \<^verbatim>\<open>application/unknown-x\<close> is text.
\<close>

theorem C3_detectResponseType_classifier:
  "detectResponseType r = classify_spec (headers_get r ''content-type'')
   \<and> (headers_get r ''content-type'' = None \<longrightarrow>
        detectResponseType r = classify_spec (Some []))
   \<and> (\<forall>h h' r'. headers_get r ''content-type'' = Some h \<and>
         headers_get r' ''content-type'' = Some h' \<and> toLowerCase h = toLowerCase h' \<longrightarrow>
         detectResponseType r = detectResponseType r')
   \<and> (headers_get r ''content-type'' = Some ''application/ld+json'' \<longrightarrow>
        detectResponseType r = Json)
   \<and> (headers_get r ''content-type'' = Some ''image/png'' \<longrightarrow> detectResponseType r = Blob)
   \<and> (headers_get r ''content-type'' = Some ''text/plain; charset=utf-8'' \<longrightarrow>
        detectResponseType r = Text)
   \<and> (headers_get r ''content-type'' = Some ''application/unknown-x'' \<longrightarrow>
        detectResponseType r = Text)"
proof (intro conjI impI allI)
  show "detectResponseType r = classify_spec (headers_get r ''content-type'')"
    by (rule detectResponseType_classify_spec)
next
  assume "headers_get r ''content-type'' = None"
  then show "detectResponseType r = classify_spec (Some [])"
    by (simp add: detectResponseType_classify_spec classify_spec_def)
next
  fix h h' :: string and r' :: Response
  assume "headers_get r ''content-type'' = Some h \<and>
          headers_get r' ''content-type'' = Some h' \<and> toLowerCase h = toLowerCase h'"
  then show "detectResponseType r = detectResponseType r'"
    by (simp add: detectResponseType_def)
next
  assume "headers_get r ''content-type'' = Some ''application/ld+json''"
  then show "detectResponseType r = Json"
    by (simp add: detectResponseType_def Let_def classify_ld_json del: matchesAny.simps)
next
  assume "headers_get r ''content-type'' = Some ''image/png''"
  then show "detectResponseType r = Blob"
    by (simp add: detectResponseType_def Let_def classify_image_png del: matchesAny.simps)
next
  assume "headers_get r ''content-type'' = Some ''text/plain; charset=utf-8''"
  then show "detectResponseType r = Text"
    by (simp add: detectResponseType_def Let_def classify_text_plain del: matchesAny.simps)
next
  assume "headers_get r ''content-type'' = Some ''application/unknown-x''"
  then show "detectResponseType r = Text"
    by (simp add: detectResponseType_def Let_def classify_unknown_x del: matchesAny.simps)
qed

text \<open>The theorem at a response whose header is \<^verbatim>\<open>Image/PNG\<close>: the upper-case
  letters do not change the category.\<close>

theorem C3_detectResponseType_classifier_witness:
  "detectResponseType
     \<lparr>ok = True, status = 200, headers_get = (\<lambda>n. if n = ''content-type'' then Some ''application/ld+json'' else None),
      json_read = Inr JNull, text_read = Inr [],
      blob_read = None, arrayBuffer_read = None\<rparr> = Json
   \<and> detectResponseType
     \<lparr>ok = True, status = 200, headers_get = (\<lambda>n. if n = ''content-type'' then Some ''image/png'' else None),
      json_read = Inr JNull, text_read = Inr [],
      blob_read = None, arrayBuffer_read = None\<rparr> = Blob
   \<and> detectResponseType
     \<lparr>ok = True, status = 200, headers_get = (\<lambda>n. if n = ''content-type'' then Some ''text/plain; charset=utf-8'' else None),
      json_read = Inr JNull, text_read = Inr [],
      blob_read = None, arrayBuffer_read = None\<rparr> = Text
   \<and> detectResponseType
     \<lparr>ok = True, status = 200, headers_get = (\<lambda>n. if n = ''content-type'' then Some ''application/unknown-x'' else None),
      json_read = Inr JNull, text_read = Inr [],
      blob_read = None, arrayBuffer_read = None\<rparr> = Text
   \<and> detectResponseType
     \<lparr>ok = True, status = 200, headers_get = (\<lambda>n. None),
      json_read = Inr JNull, text_read = Inr [],
      blob_read = None, arrayBuffer_read = None\<rparr> = Text
   \<and> detectResponseType
     \<lparr>ok = True, status = 200, headers_get = (\<lambda>n. if n = ''content-type'' then Some ''Image/PNG'' else None),
      json_read = Inr JNull, text_read = Inr [],
      blob_read = None, arrayBuffer_read = None\<rparr>
   = detectResponseType
     \<lparr>ok = True, status = 200, headers_get = (\<lambda>n. if n = ''content-type'' then Some ''image/png'' else None),
      json_read = Inr JNull, text_read = Inr [],
      blob_read = None, arrayBuffer_read = None\<rparr>"
proof -
  let ?r1 = "\<lparr>ok = True, status = 200, headers_get = (\<lambda>n. if n = ''content-type'' then Some ''application/ld+json'' else None),
      json_read = Inr JNull, text_read = Inr [],
      blob_read = None, arrayBuffer_read = None\<rparr>"
  let ?r2 = "\<lparr>ok = True, status = 200, headers_get = (\<lambda>n. if n = ''content-type'' then Some ''image/png'' else None),
      json_read = Inr JNull, text_read = Inr [],
      blob_read = None, arrayBuffer_read = None\<rparr>"
  let ?r3 = "\<lparr>ok = True, status = 200, headers_get = (\<lambda>n. if n = ''content-type'' then Some ''text/plain; charset=utf-8'' else None),
      json_read = Inr JNull, text_read = Inr [],
      blob_read = None, arrayBuffer_read = None\<rparr>"
  let ?r4 = "\<lparr>ok = True, status = 200, headers_get = (\<lambda>n. if n = ''content-type'' then Some ''application/unknown-x'' else None),
      json_read = Inr JNull, text_read = Inr [],
      blob_read = None, arrayBuffer_read = None\<rparr>"
  let ?r5 = "\<lparr>ok = True, status = 200, headers_get = (\<lambda>n. None),
      json_read = Inr JNull, text_read = Inr [],
      blob_read = None, arrayBuffer_read = None\<rparr>"
  let ?r6 = "\<lparr>ok = True, status = 200, headers_get = (\<lambda>n. if n = ''content-type'' then Some ''Image/PNG'' else None),
      json_read = Inr JNull, text_read = Inr [],
      blob_read = None, arrayBuffer_read = None\<rparr>"
  have low: "toLowerCase ''Image/PNG'' = toLowerCase ''image/png''"
    by code_simp
  have empty: "classify_spec (Some []) = Text"
    by code_simp
  have h: "headers_get ?r1 ''content-type'' = Some ''application/ld+json''"
    "headers_get ?r2 ''content-type'' = Some ''image/png''"
    "headers_get ?r3 ''content-type'' = Some ''text/plain; charset=utf-8''"
    "headers_get ?r4 ''content-type'' = Some ''application/unknown-x''"
    "headers_get ?r5 ''content-type'' = None"
    "headers_get ?r6 ''content-type'' = Some ''Image/PNG''"
    by simp_all
  from C3_detectResponseType_classifier [of ?r1] h(1)
  have 1: "detectResponseType ?r1 = Json" by blast
  from C3_detectResponseType_classifier [of ?r2] h(2)
  have 2: "detectResponseType ?r2 = Blob" by blast
  from C3_detectResponseType_classifier [of ?r3] h(3)
  have 3: "detectResponseType ?r3 = Text" by blast
  from C3_detectResponseType_classifier [of ?r4] h(4)
  have 4: "detectResponseType ?r4 = Text" by blast
  from C3_detectResponseType_classifier [of ?r5] h(5)
  have "detectResponseType ?r5 = classify_spec (Some [])" by blast
  then have 5: "detectResponseType ?r5 = Text" by (simp only: empty)
  from C3_detectResponseType_classifier [of ?r6] h(6) h(2) low
  have 6: "detectResponseType ?r6 = detectResponseType ?r2" by blast
  from 1 2 3 4 5 6 show ?thesis by blast
qed

text \<open>
  Claim C9. Automatic classification answers json, blob or text and never arrayBuffer, so
  the \<^verbatim>\<open>finalType\<close> that \<^verbatim>\<open>apiTemplate\<close> hands to \<^verbatim>\<open>parseResponse\<close> is
  arrayBuffer exactly when the caller set \<^verbatim>\<open>responseType\<close> to arrayBuffer.
\<close>

theorem C9_arrayBuffer_only_on_request:
  "detectResponseType r \<in> {Json, Blob, Text}
   \<and> detectResponseType r \<noteq> ArrayBuffer
   \<and> (chooseFinalType rt r = ArrayBuffer) = (rt = Some ArrayBuffer)"
proof -
  have d: "detectResponseType r = Json \<or> detectResponseType r = Blob \<or> detectResponseType r = Text"
    by (rule detectResponseType_cases)
  then have n: "detectResponseType r \<noteq> ArrayBuffer" and n': "detectResponseType r \<noteq> Auto"
    by auto
  have "(chooseFinalType rt r = ArrayBuffer) = (rt = Some ArrayBuffer)"
    using n by (cases rt) (auto simp: chooseFinalType_def)
  with d n show ?thesis by auto
qed

theorem C9_arrayBuffer_only_on_request_witness:
  "chooseFinalType (Some ArrayBuffer)
     \<lparr>ok = True, status = 200, headers_get = (\<lambda>n. None),
      json_read = Inr JNull, text_read = Inr [], blob_read = None, arrayBuffer_read = None\<rparr>
   = ArrayBuffer
   \<and> chooseFinalType None
     \<lparr>ok = True, status = 200, headers_get = (\<lambda>n. None),
      json_read = Inr JNull, text_read = Inr [], blob_read = None, arrayBuffer_read = None\<rparr>
   \<noteq> ArrayBuffer"
  using C9_arrayBuffer_only_on_request
    [of "\<lparr>ok = True, status = 200, headers_get = (\<lambda>n. None),
      json_read = Inr JNull, text_read = Inr [], blob_read = None, arrayBuffer_read = None\<rparr>"
        "Some ArrayBuffer"]
    C9_arrayBuffer_only_on_request
    [of "\<lparr>ok = True, status = 200, headers_get = (\<lambda>n. None),
      json_read = Inr JNull, text_read = Inr [], blob_read = None, arrayBuffer_read = None\<rparr>"
        "None"]
  by simp

section \<open>Error-message extraction\<close>

text \<open>
  Claim C8. For every payload and fallback string, \<open>getErrorMessage\<close> is the
  specification's extraction rule \<open>extractErrorMessage_spec\<close>: the fallback when the payload
  is falsy; the payload itself when it is a string; for an object the first non-empty
  value, that is the first truthy one, among the fields \<^verbatim>\<open>message\<close>, \<^verbatim>\<open>error\<close>,
  \<^verbatim>\<open>detail\<close>, \<^verbatim>\<open>msg\<close>, \<^verbatim>\<open>title\<close> probed in that order, or the fallback when
  there is none; the fallback for any other shape.
\<close>

theorem C8_getErrorMessage_extraction:
  "getErrorMessage errorData fallback = extractErrorMessage_spec errorData fallback"
  by (cases errorData)
     (simp_all add: extractErrorMessage_spec_def probe_fields_spec_def del: getProp.simps)

text \<open>The theorem at an object whose \<^verbatim>\<open>message\<close> is empty and whose \<^verbatim>\<open>detail\<close>
  and \<^verbatim>\<open>title\<close> are not, at a string, at \<^verbatim>\<open>null\<close> and at a number.\<close>

theorem C8_getErrorMessage_extraction_witness:
  "getErrorMessage
     (JObj [(''message'', JStr []), (''detail'', JStr ''not found''), (''title'', JStr ''t'')])
     ''fb'' = JStr ''not found''
   \<and> getErrorMessage (JStr ''boom'') ''fb'' = JStr ''boom''
   \<and> getErrorMessage JNull ''fb'' = JStr ''fb''
   \<and> getErrorMessage (JNum 7) ''fb'' = JStr ''fb''"
  using
    C8_getErrorMessage_extraction
      [of "JObj [(''message'', JStr []), (''detail'', JStr ''not found''), (''title'', JStr ''t'')]"
          "''fb''"]
    C8_getErrorMessage_extraction [of "JStr ''boom''" "''fb''"]
    C8_getErrorMessage_extraction [of JNull "''fb''"]
    C8_getErrorMessage_extraction [of "JNum 7" "''fb''"]
  by (simp add: extractErrorMessage_spec_def probe_fields_spec_def)

section \<open>Request preparation\<close>

text \<open>
  Claim C10. When \<open>prepareRequest\<close> accepts the arguments, the prepared headers have no
  key but \<^verbatim>\<open>Content-Type\<close> and \<^verbatim>\<open>Authorization\<close>; \<^verbatim>\<open>Content-Type\<close> is there,
  with the value \<^verbatim>\<open>application/json\<close>, exactly when \<^verbatim>\<open>isFormData\<close> is not true;
  \<^verbatim>\<open>Authorization\<close> is there, with the value \<^verbatim>\<open>Bearer\<close> and the token, exactly
  when \<^verbatim>\<open>isAuthenticationRequired\<close> is true.
\<close>

theorem C10_prepared_headers:
  assumes "prepareRequest args = Inr p"
  shows "dom (headers p) \<subseteq> {''Content-Type'', ''Authorization''}
    \<and> (''Content-Type'' \<in> dom (headers p)) = (isFormData args \<noteq> Some True)
    \<and> (''Authorization'' \<in> dom (headers p)) = (isAuthenticationRequired args = Some True)
    \<and> (isFormData args \<noteq> Some True \<longrightarrow>
          headers p ''Content-Type'' = Some ''application/json'')
    \<and> (isAuthenticationRequired args = Some True \<longrightarrow>
          (\<exists>t. token args = Some t \<and> t \<noteq> [] \<and>
               headers p ''Authorization'' = Some (''Bearer '' @ t)))"
  using assms
  by (auto simp: prepareRequest_def Let_def split: if_splits option.splits sum.splits)

text \<open>The theorem at an authenticated multipart request: \<^verbatim>\<open>Authorization\<close> only.\<close>

theorem C10_prepared_headers_witness:
  "prepareRequest
     \<lparr>baseUrl = ''https://api.test'', endpoint = ''/me'', method' = Some POST,
      payload = None, isAuthenticationRequired = Some True, token = Some ''abc'',
      isFormData = Some True, responseType = None\<rparr>
   = Inr \<lparr>headers = [''Authorization'' \<mapsto> ''Bearer abc''], body = BodyForm []\<rparr>
   \<and> dom (headers \<lparr>headers = [''Authorization'' \<mapsto> ''Bearer abc''], body = BodyForm []\<rparr>)
       \<subseteq> {''Content-Type'', ''Authorization''}
   \<and> ''Content-Type'' \<notin> dom (headers \<lparr>headers = [''Authorization'' \<mapsto> ''Bearer abc''], body = BodyForm []\<rparr>)
   \<and> headers \<lparr>headers = [''Authorization'' \<mapsto> ''Bearer abc''], body = BodyForm []\<rparr> ''Authorization''
       = Some ''Bearer abc''
   \<and> prepareRequest
     \<lparr>baseUrl = ''https://api.test'', endpoint = ''/items'', method' = Some GET,
      payload = None, isAuthenticationRequired = None, token = None,
      isFormData = None, responseType = None\<rparr>
   = Inr \<lparr>headers = [''Content-Type'' \<mapsto> ''application/json''], body = BodyUndefined\<rparr>
   \<and> headers \<lparr>headers = [''Content-Type'' \<mapsto> ''application/json''], body = BodyUndefined\<rparr> ''Content-Type''
       = Some ''application/json''
   \<and> ''Authorization'' \<notin> dom (headers \<lparr>headers = [''Content-Type'' \<mapsto> ''application/json''], body = BodyUndefined\<rparr>)"
proof -
  let ?a1 = "\<lparr>baseUrl = ''https://api.test'', endpoint = ''/me'', method' = Some POST,
      payload = None, isAuthenticationRequired = Some True, token = Some ''abc'',
      isFormData = Some True, responseType = None\<rparr>"
  let ?p1 = "\<lparr>headers = [''Authorization'' \<mapsto> ''Bearer abc''], body = BodyForm []\<rparr>"
  let ?a2 = "\<lparr>baseUrl = ''https://api.test'', endpoint = ''/items'', method' = Some GET,
      payload = None, isAuthenticationRequired = None, token = None,
      isFormData = None, responseType = None\<rparr>"
  let ?p2 = "\<lparr>headers = [''Content-Type'' \<mapsto> ''application/json''], body = BodyUndefined\<rparr>"
  have p1: "prepareRequest ?a1 = Inr ?p1"
    by (simp add: prepareRequest_def)
  have p2: "prepareRequest ?a2 = Inr ?p2"
    by (simp add: prepareRequest_def)
  from C10_prepared_headers [OF p1] C10_prepared_headers [OF p2] p1 p2 show ?thesis
    by simp
qed

text \<open>
  Claim C5. When authentication is required and the token is missing or empty,
  \<open>prepareRequest\<close> fails with the validation error, and \<open>apiTemplate\<close> rejects without
  a single call of the transport; unless the base URL is empty too, which is the
  validation failure checked first, the rejection is that same error.
\<close>

theorem C5_missing_token_rejected_before_fetch:
  assumes "isAuthenticationRequired args = Some True"
    and "token args = None \<or> token args = Some []"
  shows "prepareRequest args =
        Inl \<lparr>err_name = ''Error'', err_message = ''Token is required but not available'',
             err_status = None, err_data = None\<rparr>
    \<and> snd (apiTemplate fetch args) = []
    \<and> (\<exists>e. fst (apiTemplate fetch args) = Inl e)
    \<and> (baseUrl args \<noteq> [] \<longrightarrow>
         apiTemplate fetch args =
           (Inl \<lparr>err_name = ''Error'', err_message = ''Token is required but not available'',
                  err_status = None, err_data = None\<rparr>, []))"
proof -
  have 1: "prepareRequest args =
      Inl \<lparr>err_name = ''Error'', err_message = ''Token is required but not available'',
           err_status = None, err_data = None\<rparr>"
    using assms by (rule prepareRequest_token_missing)
  have 2: "prepareRequest (normalizedArgs args) =
      Inl \<lparr>err_name = ''Error'', err_message = ''Token is required but not available'',
           err_status = None, err_data = None\<rparr>"
    using assms by (intro prepareRequest_token_missing) (simp_all add: normalizedArgs_simps)
  show ?thesis
    using 1 2 by (simp add: apiTemplate_def Let_def)
qed

theorem C5_missing_token_rejected_before_fetch_witness:
  "prepareRequest
     \<lparr>baseUrl = ''https://api.test'', endpoint = ''/me'', method' = Some POST, payload = None,
      isAuthenticationRequired = Some True, token = None, isFormData = None,
      responseType = None\<rparr>
   = Inl \<lparr>err_name = ''Error'', err_message = ''Token is required but not available'',
           err_status = None, err_data = None\<rparr>
   \<and> apiTemplate (\<lambda>c. Inl \<lparr>err_name = ''TypeError'', err_message = ''Network request failed'',
            err_status = None, err_data = None\<rparr>)
     \<lparr>baseUrl = ''https://api.test'', endpoint = ''/me'', method' = Some POST, payload = None,
      isAuthenticationRequired = Some True, token = None, isFormData = None,
      responseType = None\<rparr>
   = (Inl \<lparr>err_name = ''Error'', err_message = ''Token is required but not available'',
           err_status = None, err_data = None\<rparr>, [])"
  using C5_missing_token_rejected_before_fetch
    [of "\<lparr>baseUrl = ''https://api.test'', endpoint = ''/me'', method' = Some POST,
      payload = None, isAuthenticationRequired = Some True, token = None, isFormData = None,
      responseType = None\<rparr>"
      "\<lambda>c. Inl \<lparr>err_name = ''TypeError'', err_message = ''Network request failed'',
            err_status = None, err_data = None\<rparr>"]
  by simp

text \<open>
  Claim C7. When \<^verbatim>\<open>isFormData\<close> is not true, the request that \<open>apiTemplate\<close>
  prepares carries no body when the method is GET (given or by default), whatever the
  payload, and otherwise carries the JSON serialization of the payload, of the empty
  object when the payload is absent; that body is the one handed to the transport.
\<close>

theorem C7_json_body:
  assumes "isFormData args \<noteq> Some True"
    and "prepareRequest (normalizedArgs args) = Inr p"
  shows "(method' args = None \<or> method' args = Some GET \<longrightarrow> body p = BodyUndefined)
    \<and> (method' args \<noteq> None \<and> method' args \<noteq> Some GET \<longrightarrow>
         (\<exists>s. JSON_stringify (JObj (case payload args of None \<Rightarrow> [] | Some kvs \<Rightarrow> kvs)) = Some s
              \<and> body p = BodyString s))
    \<and> (baseUrl args \<noteq> [] \<longrightarrow> map call_body (snd (apiTemplate fetch args)) = [body p])"
proof -
  have "body p =
      (if method' args = None \<or> method' args = Some GET then BodyUndefined
       else (case JSON_stringify (JObj (case payload args of None \<Rightarrow> [] | Some kvs \<Rightarrow> kvs)) of
               None \<Rightarrow> BodyUndefined
             | Some s \<Rightarrow> BodyString s))"
    using assms
    by (auto simp: prepareRequest_def Let_def normalizedArgs_simps
          simp del: JSON_stringify.simps split: if_splits option.splits sum.splits)
  moreover
  have "\<exists>s. JSON_stringify (JObj (case payload args of None \<Rightarrow> [] | Some kvs \<Rightarrow> kvs)) = Some s"
    by simp
  ultimately show ?thesis
    using apiTemplate_call [OF _ assms(2), of fetch] by (auto simp del: JSON_stringify.simps)
qed

text \<open>The theorem at a POST with no payload, whose body is the serialization of the
  empty object, at a POST with the payload \<^verbatim>\<open>{a:1}\<close>, and at a GET with a payload,
  which has no body.\<close>

theorem C7_json_body_witness:
  "prepareRequest (normalizedArgs
     \<lparr>baseUrl = ''https://api.test'', endpoint = ''/items'', method' = Some POST,
      payload = None, isAuthenticationRequired = None, token = None,
      isFormData = None, responseType = None\<rparr>)
   = Inr \<lparr>headers = [''Content-Type'' \<mapsto> ''application/json''], body = BodyString ''{}''\<rparr>
   \<and> map call_body (snd (apiTemplate (\<lambda>c. Inl \<lparr>err_name = ''TypeError'', err_message = ''Network request failed'',
          err_status = None, err_data = None\<rparr>)
     \<lparr>baseUrl = ''https://api.test'', endpoint = ''/items'', method' = Some POST,
      payload = None, isAuthenticationRequired = None, token = None,
      isFormData = None, responseType = None\<rparr>))
   = [BodyString ''{}'']
   \<and> prepareRequest (normalizedArgs
     \<lparr>baseUrl = ''https://api.test'', endpoint = ''/items'', method' = Some POST,
      payload = Some [(''a'', JNum 1)], isAuthenticationRequired = None, token = None,
      isFormData = None, responseType = None\<rparr>)
   = Inr \<lparr>headers = [''Content-Type'' \<mapsto> ''application/json''], body = BodyString ''{\"a\":1}''\<rparr>
   \<and> prepareRequest (normalizedArgs
     \<lparr>baseUrl = ''https://api.test'', endpoint = ''/items'', method' = Some GET,
      payload = Some [(''x'', JNum 1)], isAuthenticationRequired = None, token = None,
      isFormData = Some False, responseType = None\<rparr>)
   = Inr \<lparr>headers = [''Content-Type'' \<mapsto> ''application/json''], body = BodyUndefined\<rparr>"
proof -
  let ?a1 = "\<lparr>baseUrl = ''https://api.test'', endpoint = ''/items'', method' = Some POST,
      payload = None, isAuthenticationRequired = None, token = None,
      isFormData = None, responseType = None\<rparr>"
  let ?a2 = "\<lparr>baseUrl = ''https://api.test'', endpoint = ''/items'', method' = Some GET,
      payload = Some [(''x'', JNum 1)], isAuthenticationRequired = None, token = None,
      isFormData = Some False, responseType = None\<rparr>"
  let ?a3 = "\<lparr>baseUrl = ''https://api.test'', endpoint = ''/items'', method' = Some POST,
      payload = Some [(''a'', JNum 1)], isAuthenticationRequired = None, token = None,
      isFormData = None, responseType = None\<rparr>"
  let ?f = "(\<lambda>c. Inl \<lparr>err_name = ''TypeError'', err_message = ''Network request failed'',
          err_status = None, err_data = None\<rparr>)"
  obtain p1 where p1: "prepareRequest (normalizedArgs ?a1) = Inr p1"
      and h1: "headers p1 = [''Content-Type'' \<mapsto> ''application/json'']"
    by (simp add: prepareRequest_def normalizedArgs_def)
  obtain p2 where p2: "prepareRequest (normalizedArgs ?a2) = Inr p2"
      and h2: "headers p2 = [''Content-Type'' \<mapsto> ''application/json'']"
    by (simp add: prepareRequest_def normalizedArgs_def)
  obtain p3 where p3: "prepareRequest (normalizedArgs ?a3) = Inr p3"
      and h3: "headers p3 = [''Content-Type'' \<mapsto> ''application/json'']"
    by (simp add: prepareRequest_def normalizedArgs_def del: JSON_stringify.simps)
  have j: "JSON_stringify (JObj [(''a'', JNum 1)]) = Some ''{\"a\":1}''"
    by code_simp
  from C7_json_body [of ?a1 p1 ?f, OF _ p1]
  have b1: "body p1 = BodyString ''{}''"
    and c1: "map call_body (snd (apiTemplate ?f ?a1)) = [body p1]"
    by simp_all
  from b1 h1 have e1:
    "p1 = \<lparr>headers = [''Content-Type'' \<mapsto> ''application/json''], body = BodyString ''{}''\<rparr>"
    by (cases p1) simp
  from C7_json_body [of ?a2 p2, OF _ p2] have "body p2 = BodyUndefined"
    by simp
  with h2 have e2:
    "p2 = \<lparr>headers = [''Content-Type'' \<mapsto> ''application/json''], body = BodyUndefined\<rparr>"
    by (cases p2) simp
  from C7_json_body [of ?a3 p3, OF _ p3] j have "body p3 = BodyString ''{\"a\":1}''"
    by (simp del: JSON_stringify.simps)
  with h3 have e3:
    "p3 = \<lparr>headers = [''Content-Type'' \<mapsto> ''application/json''],
           body = BodyString ''{\"a\":1}''\<rparr>"
    by (cases p3) simp
  from p1 p2 p3 e1 e2 e3 b1 c1 show ?thesis by simp
qed

text \<open>
  Claim C6. For a multipart request (\<^verbatim>\<open>isFormData\<close> true, method other than GET) the
  form built by the loop of \<open>prepareRequest\<close> is \<open>multipart_spec\<close> of the payload: entries
  follow the order of the payload's keys; a \<^verbatim>\<open>null\<close> or \<^verbatim>\<open>undefined\<close> entry gives
  nothing; a sequence gives the entries of its elements, in order, under the same key; a
  file-like value is appended as it is, another object as its JSON serialization, a scalar
  as its string form, and a \<^verbatim>\<open>null\<close> or \<^verbatim>\<open>undefined\<close> element gives nothing. In
  particular the payload \<^verbatim>\<open>{tags:["a","b"], note:null, meta:{x:1}}\<close> gives exactly
  \<^verbatim>\<open>tags="a"\<close>, \<^verbatim>\<open>tags="b"\<close> and \<^verbatim>\<open>meta='{"x":1}'\<close>.
\<close>

theorem C6_multipart_entries:
  assumes "prepareRequest args = Inr p"
    and "isFormData args = Some True"
    and "method' args \<noteq> Some GET"
  shows "body p = BodyForm (multipart_spec (case payload args of None \<Rightarrow> [] | Some kvs \<Rightarrow> kvs))
    \<and> (payload args = Some [(''tags'', JArr [JStr ''a'', JStr ''b'']), (''note'', JNull),
                             (''meta'', JObj [(''x'', JNum 1)])]
        \<longrightarrow> body p = BodyForm [(''tags'', JStr ''a''), (''tags'', JStr ''b''),
                               (''meta'', JStr ''{\"x\":1}'')])"
proof -
  have b: "body p = BodyForm (multipart_spec (case payload args of None \<Rightarrow> [] | Some kvs \<Rightarrow> kvs))"
    using assms
    by (auto simp: prepareRequest_def Let_def forEach_appendEntry
          split: if_splits option.splits sum.splits)
  then show ?thesis
    by (auto simp: multipart_spec_example)
qed

theorem C6_multipart_entries_witness:
  "prepareRequest
     \<lparr>baseUrl = ''https://api.test'', endpoint = ''/upload'', method' = Some POST,
      payload = Some [(''tags'', JArr [JStr ''a'', JStr ''b'']), (''note'', JNull),
                      (''meta'', JObj [(''x'', JNum 1)])],
      isAuthenticationRequired = None, token = None, isFormData = Some True,
      responseType = None\<rparr>
   = Inr \<lparr>headers = Map.empty,
          body = BodyForm [(''tags'', JStr ''a''), (''tags'', JStr ''b''),
                           (''meta'', JStr ''{\"x\":1}'')]\<rparr>"
proof -
  let ?args = "\<lparr>baseUrl = ''https://api.test'', endpoint = ''/upload'', method' = Some POST,
      payload = Some [(''tags'', JArr [JStr ''a'', JStr ''b'']), (''note'', JNull),
                      (''meta'', JObj [(''x'', JNum 1)])],
      isAuthenticationRequired = None, token = None, isFormData = Some True,
      responseType = None\<rparr>"
  obtain p where p: "prepareRequest ?args = Inr p" and h: "headers p = Map.empty"
    by (simp add: prepareRequest_def forEach_appendEntry del: forEach.simps)
  have c: "isFormData ?args = Some True" "method' ?args \<noteq> Some GET"
    "payload ?args = Some [(''tags'', JArr [JStr ''a'', JStr ''b'']), (''note'', JNull),
                           (''meta'', JObj [(''x'', JNum 1)])]"
    by simp_all
  from C6_multipart_entries [OF p c(1,2)] c(3)
  have "body p = BodyForm [(''tags'', JStr ''a''), (''tags'', JStr ''b''),
                           (''meta'', JStr ''{\"x\":1}'')]"
    by blast
  with h have "p = \<lparr>headers = Map.empty,
      body = BodyForm [(''tags'', JStr ''a''), (''tags'', JStr ''b''),
                       (''meta'', JStr ''{\"x\":1}'')]\<rparr>"
    by (cases p) simp
  with p show ?thesis by simp
qed

section \<open>Errors surfaced by the template\<close>

text \<open>
  Claim C1 says of a JSON body whose \<^verbatim>\<open>type\<close> is \<^verbatim>\<open>FALSE\<close> that the rejection
  has status 400, the body as data and the extracted message as message. The code misses
  it where the extracted message is not a string, since \<^verbatim>\<open>makeApiError\<close> hands it to
  \<^verbatim>\<open>new Error\<close>. For the body \<^verbatim>\<open>{"type":"FALSE","error":{"code":7}}\<close> the rule
  extracts the object \<^verbatim>\<open>{"code":7}\<close> and the message of the rejection is
  \<^verbatim>\<open>[object Object]\<close>. For the body
  \<^verbatim>\<open>{"type":"FALSE","message":{"toString":1}}\<close> the constructor throws, and the
  rejection is a \<^verbatim>\<open>TypeError\<close> with no status and no data.
\<close>

theorem C1_non_string_message:
  "parseResponse
     \<lparr>ok = True, status = 200, headers_get = (\<lambda>n. if n = ''content-type'' then Some ''application/json'' else None),
      json_read = Inr (JObj [(''type'', JStr ''FALSE''), (''error'', JObj [(''code'', JNum 7)])]), text_read = Inr [],
      blob_read = None, arrayBuffer_read = None\<rparr> Json
   = Inl \<lparr>err_name = ''ApiError'', err_message = ''[object Object]'',
          err_status = Some 400,
          err_data = Some (JObj [(''type'', JStr ''FALSE''), (''error'', JObj [(''code'', JNum 7)])])\<rparr>
   \<and> getErrorMessage (JObj [(''type'', JStr ''FALSE''), (''error'', JObj [(''code'', JNum 7)])])
        ''Operation failed'' = JObj [(''code'', JNum 7)]
   \<and> parseResponse
     \<lparr>ok = True, status = 200, headers_get = (\<lambda>n. if n = ''content-type'' then Some ''application/json'' else None),
      json_read = Inr (JObj [(''type'', JStr ''FALSE''), (''message'', JObj [(''toString'', JNum 1)])]), text_read = Inr [],
      blob_read = None, arrayBuffer_read = None\<rparr> Json
   = Inl TypeError_not_primitive
   \<and> getErrorMessage (JObj [(''type'', JStr ''FALSE''), (''message'', JObj [(''toString'', JNum 1)])])
        ''Operation failed'' = JObj [(''toString'', JNum 1)]
   \<and> err_status TypeError_not_primitive = None
   \<and> err_data TypeError_not_primitive = None"
  by (simp add: parseResponse_def throwIfOperationFailed_def makeApiError_def new_Error_def
        thrown_def TypeError_not_primitive_def)

text \<open>
  Claim C2 says of a response that is not ok that the rejection has the response's status,
  the error payload as data and the extracted message as message. The code misses it
  where the extracted message is not a string, by the same call of \<^verbatim>\<open>makeApiError\<close>.
  For a 404 with the JSON body \<^verbatim>\<open>{"error":{"code":7}}\<close> the rule extracts the object
  \<^verbatim>\<open>{"code":7}\<close> and the message of the rejection is \<^verbatim>\<open>[object Object]\<close>. For a
  404 with the JSON body \<^verbatim>\<open>{"error":{"toString":1}}\<close> the constructor throws, and the
  rejection is a \<^verbatim>\<open>TypeError\<close> with no status and no data.
\<close>

theorem C2_non_string_message:
  "fst (apiTemplate (\<lambda>c. Inr
     \<lparr>ok = False, status = 404, headers_get = (\<lambda>n. if n = ''content-type'' then Some ''application/json'' else None),
      json_read = Inr (JObj [(''error'', JObj [(''code'', JNum 7)])]), text_read = Inr [],
      blob_read = None, arrayBuffer_read = None\<rparr>)
     \<lparr>baseUrl = ''https://api.test'', endpoint = ''/items'', method' = None,
      payload = None, isAuthenticationRequired = None, token = None,
      isFormData = None, responseType = None\<rparr>)
   = Inl \<lparr>err_name = ''ApiError'', err_message = ''[object Object]'',
          err_status = Some 404,
          err_data = Some (JObj [(''error'', JObj [(''code'', JNum 7)])])\<rparr>
   \<and> getErrorMessage (JObj [(''error'', JObj [(''code'', JNum 7)])]) ''API error (404)''
       = JObj [(''code'', JNum 7)]
   \<and> fst (apiTemplate (\<lambda>c. Inr
     \<lparr>ok = False, status = 404, headers_get = (\<lambda>n. if n = ''content-type'' then Some ''application/json'' else None),
      json_read = Inr (JObj [(''error'', JObj [(''toString'', JNum 1)])]), text_read = Inr [],
      blob_read = None, arrayBuffer_read = None\<rparr>)
     \<lparr>baseUrl = ''https://api.test'', endpoint = ''/items'', method' = None,
      payload = None, isAuthenticationRequired = None, token = None,
      isFormData = None, responseType = None\<rparr>)
   = Inl TypeError_not_primitive
   \<and> getErrorMessage (JObj [(''error'', JObj [(''toString'', JNum 1)])]) ''API error (404)''
       = JObj [(''toString'', JNum 1)]
   \<and> err_status TypeError_not_primitive = None
   \<and> err_data TypeError_not_primitive = None"
proof -
  have l: "includes' (toLowerCase ''application/json'') ''application/json''"
    by code_simp
  show ?thesis
    by (simp add: apiTemplate_def prepareRequest_def normalizedArgs_def httpError_def
          makeApiError_def new_Error_def thrown_def TypeError_not_primitive_def l
          del: includes'.simps)
qed

text \<open>
  Claim C4, amended. A failure reported by the server whose extracted message is a string
  is surfaced as an error object named \<^verbatim>\<open>ApiError\<close> that has that message, a status
  and a data: the response's status and the error payload for a response that is not ok,
  400 and the parsed body for the sentinel failure. A validation failure (empty base URL,
  or authentication required without a token) is surfaced as a plain \<^verbatim>\<open>Error\<close> that
  has a message only: it has no status and no data.
\<close>

theorem C4_error_shapes:
  "(baseUrl args = [] \<longrightarrow>
      apiTemplate fetch args =
        (Inl \<lparr>err_name = ''Error'', err_message = ''Base URL not found'',
               err_status = None, err_data = None\<rparr>, []))
   \<and> (baseUrl args \<noteq> [] \<and> isAuthenticationRequired args = Some True \<and>
       (token args = None \<or> token args = Some []) \<longrightarrow>
      apiTemplate fetch args =
        (Inl \<lparr>err_name = ''Error'', err_message = ''Token is required but not available'',
               err_status = None, err_data = None\<rparr>, []))
   \<and> (baseUrl args \<noteq> [] \<and> prepareRequest (normalizedArgs args) = Inr p \<and>
       fetch \<lparr>call_url = baseUrl args @ endpoint args,
              call_method = (case method' args of None \<Rightarrow> GET | Some m \<Rightarrow> m),
              call_headers = headers p, call_body = body p\<rparr> = Inr r \<and> \<not> ok r \<and>
       getErrorMessage (errorPayload_spec r)
         (''API error ('' @ show_int (uint (status r)) @ '')'') = JStr s \<longrightarrow>
      fst (apiTemplate fetch args) =
        Inl \<lparr>err_name = ''ApiError'', err_message = s,
             err_status = Some (uint (status r)), err_data = Some (errorPayload_spec r)\<rparr>)
   \<and> (baseUrl args \<noteq> [] \<and> prepareRequest (normalizedArgs args) = Inr p \<and>
       fetch \<lparr>call_url = baseUrl args @ endpoint args,
              call_method = (case method' args of None \<Rightarrow> GET | Some m \<Rightarrow> m),
              call_headers = headers p, call_body = body p\<rparr> = Inr r \<and> ok r \<and>
       chooseFinalType (responseType args) r = Json \<and> json_read r = Inr (JObj kvs) \<and>
       map_of kvs ''type'' = Some (JStr ''FALSE'') \<and>
       getErrorMessage (JObj kvs) ''Operation failed'' = JStr s' \<longrightarrow>
      fst (apiTemplate fetch args) =
        Inl \<lparr>err_name = ''ApiError'', err_message = s',
             err_status = Some 400, err_data = Some (JObj kvs)\<rparr>)"
proof (intro conjI impI)
  assume "baseUrl args = []"
  then show "apiTemplate fetch args =
        (Inl \<lparr>err_name = ''Error'', err_message = ''Base URL not found'',
               err_status = None, err_data = None\<rparr>, [])"
    by (simp add: apiTemplate_def thrown_new_Error_string)
next
  assume a: "baseUrl args \<noteq> [] \<and> isAuthenticationRequired args = Some True \<and>
       (token args = None \<or> token args = Some [])"
  then have "prepareRequest (normalizedArgs args) =
      Inl \<lparr>err_name = ''Error'', err_message = ''Token is required but not available'',
           err_status = None, err_data = None\<rparr>"
    by (intro prepareRequest_token_missing) (simp_all add: normalizedArgs_simps)
  with a show "apiTemplate fetch args =
        (Inl \<lparr>err_name = ''Error'', err_message = ''Token is required but not available'',
               err_status = None, err_data = None\<rparr>, [])"
    by (simp add: apiTemplate_def)
next
  assume a: "baseUrl args \<noteq> [] \<and> prepareRequest (normalizedArgs args) = Inr p \<and>
       fetch \<lparr>call_url = baseUrl args @ endpoint args,
              call_method = (case method' args of None \<Rightarrow> GET | Some m \<Rightarrow> m),
              call_headers = headers p, call_body = body p\<rparr> = Inr r \<and> \<not> ok r \<and>
       getErrorMessage (errorPayload_spec r)
         (''API error ('' @ show_int (uint (status r)) @ '')'') = JStr s"
  then have "fst (apiTemplate fetch args) = Inl (httpError r)"
    using apiTemplate_response [of args p fetch r] by simp
  moreover from a have "httpError r =
      \<lparr>err_name = ''ApiError'', err_message = s,
       err_status = Some (uint (status r)), err_data = Some (errorPayload_spec r)\<rparr>"
    by (simp only: httpError_payload thrown_makeApiError_string)
  ultimately show "fst (apiTemplate fetch args) =
        Inl \<lparr>err_name = ''ApiError'', err_message = s,
             err_status = Some (uint (status r)), err_data = Some (errorPayload_spec r)\<rparr>"
    by simp
next
  assume a: "baseUrl args \<noteq> [] \<and> prepareRequest (normalizedArgs args) = Inr p \<and>
       fetch \<lparr>call_url = baseUrl args @ endpoint args,
              call_method = (case method' args of None \<Rightarrow> GET | Some m \<Rightarrow> m),
              call_headers = headers p, call_body = body p\<rparr> = Inr r \<and> ok r \<and>
       chooseFinalType (responseType args) r = Json \<and> json_read r = Inr (JObj kvs) \<and>
       map_of kvs ''type'' = Some (JStr ''FALSE'') \<and>
       getErrorMessage (JObj kvs) ''Operation failed'' = JStr s'"
  then have "fst (apiTemplate fetch args) = parseResponse r Json"
    using apiTemplate_response [of args p fetch r] by simp
  moreover from a have "throwIfOperationFailed (JObj kvs) =
      Some \<lparr>err_name = ''ApiError'', err_message = s',
            err_status = Some 400, err_data = Some (JObj kvs)\<rparr>"
    by (simp add: throwIfOperationFailed_sentinel thrown_makeApiError_string
          del: getErrorMessage.simps)
  ultimately show "fst (apiTemplate fetch args) =
        Inl \<lparr>err_name = ''ApiError'', err_message = s',
             err_status = Some 400, err_data = Some (JObj kvs)\<rparr>"
    using a by (simp add: parseResponse_def)
qed

text \<open>The theorem at an empty base URL, at an empty token, at a 404 with the JSON body
  \<^verbatim>\<open>{"detail":"not found"}\<close> and at a 200 with the JSON body
  \<^verbatim>\<open>{"type":"FALSE","error":"bad input"}\<close>.\<close>

theorem C4_error_shapes_witness:
  "apiTemplate (\<lambda>c. Inl \<lparr>err_name = ''TypeError'', err_message = ''Network request failed'',
          err_status = None, err_data = None\<rparr>)
     \<lparr>baseUrl = [], endpoint = ''/items'', method' = None,
      payload = None, isAuthenticationRequired = None, token = None,
      isFormData = None, responseType = None\<rparr>
   = (Inl \<lparr>err_name = ''Error'', err_message = ''Base URL not found'',
          err_status = None, err_data = None\<rparr>, [])
   \<and> apiTemplate (\<lambda>c. Inl \<lparr>err_name = ''TypeError'', err_message = ''Network request failed'',
          err_status = None, err_data = None\<rparr>)
     \<lparr>baseUrl = ''https://api.test'', endpoint = ''/me'', method' = None,
      payload = None, isAuthenticationRequired = Some True, token = Some [],
      isFormData = None, responseType = None\<rparr>
   = (Inl \<lparr>err_name = ''Error'', err_message = ''Token is required but not available'',
          err_status = None, err_data = None\<rparr>, [])
   \<and> fst (apiTemplate (\<lambda>c. Inr
     \<lparr>ok = False, status = 404, headers_get = (\<lambda>n. if n = ''content-type'' then Some ''application/json'' else None),
      json_read = Inr (JObj [(''detail'', JStr ''not found'')]), text_read = Inr [],
      blob_read = None, arrayBuffer_read = None\<rparr>)
     \<lparr>baseUrl = ''https://api.test'', endpoint = ''/items'', method' = None,
      payload = None, isAuthenticationRequired = None, token = None,
      isFormData = None, responseType = None\<rparr>)
   = Inl \<lparr>err_name = ''ApiError'', err_message = ''not found'',
          err_status = Some 404, err_data = Some (JObj [(''detail'', JStr ''not found'')])\<rparr>
   \<and> fst (apiTemplate (\<lambda>c. Inr
     \<lparr>ok = True, status = 200, headers_get = (\<lambda>n. if n = ''content-type'' then Some ''application/json'' else None),
      json_read = Inr (JObj [(''type'', JStr ''FALSE''), (''error'', JStr ''bad input'')]), text_read = Inr [],
      blob_read = None, arrayBuffer_read = None\<rparr>)
     \<lparr>baseUrl = ''https://api.test'', endpoint = ''/items'', method' = None,
      payload = None, isAuthenticationRequired = None, token = None,
      isFormData = None, responseType = None\<rparr>)
   = Inl \<lparr>err_name = ''ApiError'', err_message = ''bad input'',
          err_status = Some 400, err_data = Some (JObj [(''type'', JStr ''FALSE''), (''error'', JStr ''bad input'')])\<rparr>"
proof -
  let ?a1 = "\<lparr>baseUrl = [], endpoint = ''/items'', method' = None,
      payload = None, isAuthenticationRequired = None, token = None,
      isFormData = None, responseType = None\<rparr>"
  let ?a2 = "\<lparr>baseUrl = ''https://api.test'', endpoint = ''/me'', method' = None,
      payload = None, isAuthenticationRequired = Some True, token = Some [],
      isFormData = None, responseType = None\<rparr>"
  let ?a3 = "\<lparr>baseUrl = ''https://api.test'', endpoint = ''/items'', method' = None,
      payload = None, isAuthenticationRequired = None, token = None,
      isFormData = None, responseType = None\<rparr>"
  let ?r3 = "\<lparr>ok = False, status = 404, headers_get = (\<lambda>n. if n = ''content-type'' then Some ''application/json'' else None),
      json_read = Inr (JObj [(''detail'', JStr ''not found'')]), text_read = Inr [],
      blob_read = None, arrayBuffer_read = None\<rparr>"
  let ?r4 = "\<lparr>ok = True, status = 200, headers_get = (\<lambda>n. if n = ''content-type'' then Some ''application/json'' else None),
      json_read = Inr (JObj [(''type'', JStr ''FALSE''), (''error'', JStr ''bad input'')]), text_read = Inr [],
      blob_read = None, arrayBuffer_read = None\<rparr>"
  let ?f = "(\<lambda>c. Inl \<lparr>err_name = ''TypeError'', err_message = ''Network request failed'',
          err_status = None, err_data = None\<rparr>)"
  let ?p = "\<lparr>headers = [''Content-Type'' \<mapsto> ''application/json''], body = BodyUndefined\<rparr>"
  have p: "prepareRequest (normalizedArgs ?a3) = Inr ?p"
    by (simp add: prepareRequest_def normalizedArgs_def)
  have t: "chooseFinalType (responseType ?a3) ?r4 = Json"
    by (simp add: chooseFinalType_def detectResponseType_def detect_json_header
          del: matchesAny.simps)
  have e3: "errorPayload_spec ?r3 = JObj [(''detail'', JStr ''not found'')]"
    by (simp add: errorPayload_spec_def detect_json_header)
  have m3: "getErrorMessage (errorPayload_spec ?r3)
      (''API error ('' @ show_int (uint (status ?r3)) @ '')'') = JStr ''not found''"
    by (simp add: e3)
  have m4: "getErrorMessage (JObj [(''type'', JStr ''FALSE''), (''error'', JStr ''bad input'')])
      ''Operation failed'' = JStr ''bad input''"
    by simp
  from C4_error_shapes [of ?a1 ?f]
  have 1: "apiTemplate ?f ?a1 =
      (Inl \<lparr>err_name = ''Error'', err_message = ''Base URL not found'',
             err_status = None, err_data = None\<rparr>, [])"
    by simp
  from C4_error_shapes [of ?a2 ?f]
  have 2: "apiTemplate ?f ?a2 =
      (Inl \<lparr>err_name = ''Error'', err_message = ''Token is required but not available'',
             err_status = None, err_data = None\<rparr>, [])"
    by simp
  from C4_error_shapes [where args = ?a3 and fetch = "\<lambda>c. Inr ?r3" and p = ?p and r = ?r3
      and s = "''not found''"] p m3 e3
  have 3: "fst (apiTemplate (\<lambda>c. Inr ?r3) ?a3) =
      Inl \<lparr>err_name = ''ApiError'', err_message = ''not found'', err_status = Some 404,
           err_data = Some (JObj [(''detail'', JStr ''not found'')])\<rparr>"
    by simp
  from C4_error_shapes [where args = ?a3 and fetch = "\<lambda>c. Inr ?r4" and p = ?p and r = ?r4
      and kvs = "[(''type'', JStr ''FALSE''), (''error'', JStr ''bad input'')]"
      and s' = "''bad input''"] p t m4
  have 4: "fst (apiTemplate (\<lambda>c. Inr ?r4) ?a3) =
      Inl \<lparr>err_name = ''ApiError'', err_message = ''bad input'', err_status = Some 400,
           err_data = Some (JObj [(''type'', JStr ''FALSE''), (''error'', JStr ''bad input'')])\<rparr>"
    by simp
  from 1 2 3 4 show ?thesis by simp
qed

text \<open>
  Claim C4 as stated fails for a validation failure: with an empty base URL the error
  that \<open>apiTemplate\<close> rejects with has neither a status nor a data.
\<close>

theorem C4_validation_error_counterexample:
  "fst (apiTemplate (\<lambda>c. Inl \<lparr>err_name = ''TypeError'', err_message = ''Network request failed'',
          err_status = None, err_data = None\<rparr>)
     \<lparr>baseUrl = [], endpoint = ''/items'', method' = None,
      payload = None, isAuthenticationRequired = None, token = None,
      isFormData = None, responseType = None\<rparr>)
   = Inl \<lparr>err_name = ''Error'', err_message = ''Base URL not found'',
          err_status = None, err_data = None\<rparr>
   \<and> err_status \<lparr>err_name = ''Error'', err_message = ''Base URL not found'',
          err_status = None, err_data = None\<rparr> = None
   \<and> err_data \<lparr>err_name = ''Error'', err_message = ''Base URL not found'',
          err_status = None, err_data = None\<rparr> = None"
  by (simp add: apiTemplate_def thrown_new_Error_string)

end
